theory Spec2Isabelle
  imports Main
begin

section \<open>Code Duel backend: the battle engine of \<^verbatim>\<open>server.js\<close>\<close>

text \<open>
  The development embeds the class \<^verbatim>\<open>GameEngine\<close> and the route
  \<^verbatim>\<open>POST /api/game/:gameId/actions\<close> of \<^verbatim>\<open>src/server.js\<close>.
  JavaScript objects are records, object mutation is explicit state passing (every function
  returns the objects it has written), the process-wide \<^verbatim>\<open>games\<close> map is a partial
  function from identifiers to games, and HTTP answers are values of a response datatype.

  Numbers: JavaScript numbers are doubles. \<^verbatim>\<open>hp\<close>, \<^verbatim>\<open>energy\<close> and the staged
  damage start as small integer literals and are only changed by adding or subtracting
  small integer literals, \<^verbatim>\<open>Math.max\<close>, \<^verbatim>\<open>Math.min\<close> and
  \<^verbatim>\<open>Math.floor(d * 0.5)\<close>, all exact on integers of that size, so they are modelled as
  \<^typ>\<open>int\<close> with the integer operations. The counter \<^verbatim>\<open>round\<close> grows without
  bound, so its increment is modelled with the rounding of doubles (\<open>jsIncrement\<close>).
\<close>

subsection \<open>JavaScript values that can arrive as an action\<close>

text \<open>
  The two actions come out of the parsed JSON body, so they can be any JSON value, or
  \<^verbatim>\<open>undefined\<close> when the key is absent. Objects and arrays are collapsed into
  \<open>JObject\<close>: the code only tests them for truthiness (always true) and for strict
  equality with a string (always false). For a number the code only sees whether it is
  zero, so the integers stand for all numbers.
\<close>

datatype jsvalue = JUndefined | JNull | JBool bool | JNum int | JStr string | JObject

text \<open>The test \<^verbatim>\<open>!x\<close> of the route is \<open>\<not> truthy x\<close>.\<close>

fun truthy :: "jsvalue \<Rightarrow> bool" where
  "truthy JUndefined = False"
| "truthy JNull = False"
| "truthy (JBool b) = b"
| "truthy (JNum n) = (n \<noteq> 0)"
| "truthy (JStr s) = (s \<noteq> [])"
| "truthy JObject = True"

subsection \<open>Data model\<close>

text \<open>
  An object with the two keys \<^verbatim>\<open>player1\<close> and \<^verbatim>\<open>player2\<close>; the source uses this
  shape for \<^verbatim>\<open>players\<close>, \<^verbatim>\<open>lastActions\<close>, \<^verbatim>\<open>actions\<close> and
  \<^verbatim>\<open>finalHp\<close>.
\<close>

record 'a slots =
  player1 :: 'a
  player2 :: 'a

text \<open>A player, as \<^verbatim>\<open>createNewGame\<close> lays it out. The key \<^verbatim>\<open>id\<close> is named
  \<open>playerId\<close> here, \<^verbatim>\<open>status\<close> is \<open>playerStatus\<close>.\<close>

record player =
  playerId :: string
  name :: string
  hp :: int
  maxHp :: int
  energy :: int
  maxEnergy :: int
  charged :: bool
  playerStatus :: string

text \<open>
  One side of \<^verbatim>\<open>battleResult\<close>. \<^verbatim>\<open>statusChange\<close> starts as \<^verbatim>\<open>null\<close>
  (\<open>None\<close>). \<^verbatim>\<open>defending\<close> is a boolean property that the engine deletes before it
  returns: \<open>None\<close> is the absent property.
\<close>

record playerResult =
  damage :: int
  energyChange :: int
  statusChange :: "string option"
  defending :: "bool option"

record battleResult = "playerResult slots" +
  messages :: "string list"

text \<open>An entry of \<^verbatim>\<open>battleLog\<close>; its key \<^verbatim>\<open>round\<close> is named \<open>logRound\<close>.\<close>

record logEntry =
  logRound :: int
  actions :: "jsvalue slots"
  results :: battleResult
  finalHp :: "int slots"

text \<open>The game object. The key \<^verbatim>\<open>id\<close> is named \<open>gameId\<close>; \<^verbatim>\<open>winner\<close> is
  \<^verbatim>\<open>null\<close> (\<open>None\<close>) or one of the strings the engine writes.\<close>

record game =
  gameId :: string
  players :: "player slots"
  currentTurn :: string
  round :: int
  gameStatus :: string
  winner :: "string option"
  lastActions :: "jsvalue slots"
  battleLog :: "logEntry list"

type_synonym games = "string \<rightharpoonup> game"

subsection \<open>\<^verbatim>\<open>GameEngine.createNewGame\<close>\<close>

definition newPlayer :: "string \<Rightarrow> string \<Rightarrow> player" where
  "newPlayer i n =
     \<lparr>playerId = i, name = n, hp = 100, maxHp = 100, energy = 3, maxEnergy = 5,
      charged = False, playerStatus = ''active''\<rparr>"

text \<open>Returns the new game and the store with the game registered under its identifier.\<close>

definition createNewGame :: "games \<Rightarrow> string \<Rightarrow> game \<times> games" where
  "createNewGame store gid =
     (let g = \<lparr>gameId = gid,
                players = \<lparr>player1 = newPlayer ''player1'' ''Player 1'',
                           player2 = newPlayer ''player2'' ''Player 2''\<rparr>,
                currentTurn = ''player1'',
                round = 1,
                gameStatus = ''active'',
                winner = None,
                lastActions = \<lparr>player1 = JNull, player2 = JNull\<rparr>,
                battleLog = []\<rparr>
      in (g, store(gid \<mapsto> g)))"

subsection \<open>\<^verbatim>\<open>GameEngine.executeAction\<close>\<close>

text \<open>
  The function writes to \<^verbatim>\<open>attacker\<close> (the flag \<^verbatim>\<open>charged\<close>), to
  \<^verbatim>\<open>attackerResult\<close> and to \<^verbatim>\<open>defenderResult\<close>; it returns the three. The
  \<^verbatim>\<open>defender\<close> and \<^verbatim>\<open>attackerName\<close> parameters are never read or written by the
  source. The \<^verbatim>\<open>switch\<close> compares with strict equality, so only the three strings
  select a case and everything else reaches \<^verbatim>\<open>default\<close>. At both call sites
  the two players are distinct objects and so are the two results.
\<close>

definition executeAction ::
  "player \<Rightarrow> player \<Rightarrow> jsvalue \<Rightarrow> playerResult \<Rightarrow> playerResult \<Rightarrow> string
   \<Rightarrow> player \<times> playerResult \<times> playerResult" where
  "executeAction attacker defender action attackerResult defenderResult attackerName =
     (if action = JStr ''attack'' then
        (if energy attacker \<ge> 1 then
           (attacker\<lparr>charged := False\<rparr>,
            attackerResult\<lparr>energyChange := - 1,
              statusChange := Some (if charged attacker then ''Charged attack!''
                                    else ''Normal attack!'')\<rparr>,
            defenderResult\<lparr>damage := (if charged attacker then 25 else 15)\<rparr>)
         else
           (attacker, attackerResult\<lparr>statusChange := Some ''Not enough energy!''\<rparr>,
            defenderResult))
      else if action = JStr ''defend'' then
        (attacker,
         attackerResult\<lparr>energyChange := 1, statusChange := Some ''Defending!'',
           defending := Some True\<rparr>,
         defenderResult)
      else if action = JStr ''charge'' then
        (if energy attacker \<ge> 2 then
           (attacker\<lparr>charged := True\<rparr>,
            attackerResult\<lparr>energyChange := - 2,
              statusChange := Some ''Charged up for next attack!''\<rparr>,
            defenderResult)
         else
           (attacker, attackerResult\<lparr>statusChange := Some ''Not enough energy to charge!''\<rparr>,
            defenderResult))
      else
        (attacker, attackerResult\<lparr>statusChange := Some ''Invalid action!''\<rparr>,
         defenderResult))"

subsection \<open>\<^verbatim>\<open>x++\<close> on a number that holds an integer\<close>

text \<open>
  A double has a significand of 53 bits: the integers of magnitude below \<open>2 ^ 53\<close> are all
  doubles, those of magnitude from \<open>2 ^ 53\<close> to \<open>2 ^ 54\<close> are doubles when they are multiples
  of 2, the next ones when they are multiples of 4, and so on. \<open>ulpOf m\<close> is that spacing
  at the magnitude \<open>m\<close>.
\<close>

function ulpOf :: "int \<Rightarrow> int" where
  "ulpOf m = (if m < 2 ^ 53 then 1 else 2 * ulpOf (m div 2))"
  by pat_completeness auto
termination
  by (relation "measure nat") auto

declare ulpOf.simps [simp del]

text \<open>
  The double nearest to the integer \<open>n\<close>, ties going to the double with the even
  significand (the rounding mode of JavaScript arithmetic). \<open>lo\<close> is the double just below
  or at \<open>n\<close>, \<open>lo + q\<close> the next one.
\<close>

definition roundToDouble :: "int \<Rightarrow> int" where
  "roundToDouble n =
     (let q = ulpOf \<bar>n\<bar>; k = n div q; lo = k * q; r = n - lo in
      if 2 * r < q then lo
      else if q < 2 * r then lo + q
      else if even k then lo else lo + q)"

text \<open>
  \<^verbatim>\<open>x++\<close> on a double \<open>x\<close> that holds an integer stores the double nearest to
  \<open>x + 1\<close>: it adds exactly 1 as long as the result has magnitude at most \<open>2 ^ 53\<close>, and it
  leaves \<open>2 ^ 53\<close> unchanged. (A double is below \<open>2 ^ 1024\<close> in magnitude, and adding 1 to it
  never overflows.)
\<close>

definition jsIncrement :: "int \<Rightarrow> int" where
  "jsIncrement n = roundToDouble (n + 1)"

subsection \<open>\<^verbatim>\<open>GameEngine.processActions\<close>\<close>

text \<open>The per-player object \<^verbatim>\<open>battleResult\<close> starts with.\<close>

definition freshResult :: playerResult where
  "freshResult = \<lparr>damage = 0, energyChange = 0, statusChange = None, defending = Some False\<rparr>"

text \<open>
  The whole round, statement by statement in the order of the source: store the actions, run
  player 1's action and then player 2's, halve the damage of a defending player, write
  \<^verbatim>\<open>hp\<close> and \<^verbatim>\<open>energy\<close>, delete the \<^verbatim>\<open>defending\<close> flags, append the log
  entry, check for the end of the game and increment \<^verbatim>\<open>round\<close> (\<^verbatim>\<open>game.round++\<close>,
  a number). It returns the mutated game and the \<^verbatim>\<open>battleResult\<close>. \<^verbatim>\<open>Math.floor(d * 0.5)\<close> on a positive integer
  \<open>d\<close> is \<open>d div 2\<close>.
\<close>

definition processActions :: "game \<Rightarrow> jsvalue \<Rightarrow> jsvalue \<Rightarrow> game \<times> battleResult" where
  "processActions g player1Action player2Action =
     (let p1 = player1 (players g);
          p2 = player2 (players g);
          g = g\<lparr>lastActions := \<lparr>player1 = player1Action, player2 = player2Action\<rparr>\<rparr>;
          r1 = freshResult;
          r2 = freshResult;
          (p1, r1, r2) = executeAction p1 p2 player1Action r1 r2 ''Player 1'';
          (p2, r2, r1) = executeAction p2 p1 player2Action r2 r1 ''Player 2'';
          r1 = (if defending r1 = Some True \<and> damage r1 > 0
                then r1\<lparr>damage := damage r1 div 2\<rparr> else r1);
          r2 = (if defending r2 = Some True \<and> damage r2 > 0
                then r2\<lparr>damage := damage r2 div 2\<rparr> else r2);
          p1 = p1\<lparr>hp := max 0 (hp p1 - damage r1)\<rparr>;
          p2 = p2\<lparr>hp := max 0 (hp p2 - damage r2)\<rparr>;
          p1 = p1\<lparr>energy := min (maxEnergy p1) (max 0 (energy p1 + energyChange r1))\<rparr>;
          p2 = p2\<lparr>energy := min (maxEnergy p2) (max 0 (energy p2 + energyChange r2))\<rparr>;
          r1 = r1\<lparr>defending := None\<rparr>;
          r2 = r2\<lparr>defending := None\<rparr>;
          battleResult = \<lparr>player1 = r1, player2 = r2, messages = []\<rparr>;
          entry = \<lparr>logRound = round g,
                   actions = \<lparr>player1 = player1Action, player2 = player2Action\<rparr>,
                   results = battleResult,
                   finalHp = \<lparr>player1 = hp p1, player2 = hp p2\<rparr>\<rparr>;
          g = g\<lparr>players := \<lparr>player1 = p1, player2 = p2\<rparr>,
                battleLog := battleLog g @ [entry]\<rparr>;
          g = (if hp p1 \<le> 0 \<or> hp p2 \<le> 0 then
                 g\<lparr>gameStatus := ''finished'',
                   winner := Some (if hp p1 \<le> 0 \<and> hp p2 \<le> 0 then ''tie''
                                   else if hp p1 \<le> 0 then ''player2'' else ''player1'')\<rparr>
               else g)
      in (g\<lparr>round := jsIncrement (round g)\<rparr>, battleResult))"

subsection \<open>\<^verbatim>\<open>GameEngine.getGameState\<close>\<close>

text \<open>The view sent to the client; \<^verbatim>\<open>battleLog.slice(-3)\<close> keeps the last three
  entries, or all of them when there are fewer.\<close>

record gameState =
  viewId :: string
  viewPlayers :: "player slots"
  viewCurrentTurn :: string
  viewRound :: int
  viewGameStatus :: string
  viewWinner :: "string option"
  viewLastActions :: "jsvalue slots"
  recentBattleLog :: "logEntry list"

definition getGameState :: "game \<Rightarrow> gameState" where
  "getGameState g =
     \<lparr>viewId = gameId g, viewPlayers = players g, viewCurrentTurn = currentTurn g,
      viewRound = round g, viewGameStatus = gameStatus g, viewWinner = winner g,
      viewLastActions = lastActions g,
      recentBattleLog = drop (length (battleLog g) - 3) (battleLog g)\<rparr>"

subsection \<open>The route \<^verbatim>\<open>POST /api/game/:gameId/actions\<close>\<close>

text \<open>
  An answer is either an error with its HTTP status and its \<^verbatim>\<open>error\<close> string, or the
  success body with the game view and the battle result.

  The request: the \<^verbatim>\<open>gameId\<close> of the path and \<^verbatim>\<open>req.body\<close>. When the JSON
  middleware has parsed a body, \<^verbatim>\<open>req.body\<close> is an object, of which the route only
  reads the keys \<^verbatim>\<open>player1Action\<close> and \<^verbatim>\<open>player2Action\<close> (\<open>JUndefined\<close> for an
  absent key; the two fields are named \<open>bodyPlayer1Action\<close> and \<open>bodyPlayer2Action\<close>). When no body was parsed, \<^verbatim>\<open>req.body\<close> is an empty object under
  Express 4 and \<^verbatim>\<open>undefined\<close> under Express 5; the sources do not say which version
  runs, so both are modelled: \<open>None\<close> is the \<^verbatim>\<open>undefined\<close> body.
\<close>

datatype response = Failure nat string | Success gameState battleResult

record requestBody =
  bodyPlayer1Action :: jsvalue
  bodyPlayer2Action :: jsvalue

text \<open>The exception the body of the \<^verbatim>\<open>try\<close> block can raise: destructuring
  \<^verbatim>\<open>undefined\<close> in line 252.\<close>

datatype exn = TypeError

definition validActions :: "jsvalue list" where
  "validActions = [JStr ''attack'', JStr ''defend'', JStr ''charge'']"

text \<open>
  Lines 229 to 298, the body of the \<^verbatim>\<open>try\<close> block: the answer with the store after
  the call, or the exception. The game found in the store is the object the engine
  mutates, so on success the store holds the mutated game under the same key.
  \<^verbatim>\<open>validActions.includes(x)\<close> is membership in the list of the three strings.
\<close>

definition tryActions :: "games \<Rightarrow> string \<Rightarrow> requestBody option \<Rightarrow> exn + response \<times> games" where
  "tryActions store gid body =
     (case store gid of
        None \<Rightarrow> Inr (Failure 404 ''Game not found'', store)
      | Some g \<Rightarrow>
          if gameStatus g \<noteq> ''active'' then Inr (Failure 400 ''Game is not active'', store)
          else
            (case body of
               None \<Rightarrow> Inl TypeError
             | Some b \<Rightarrow>
                 if \<not> truthy (bodyPlayer1Action b) \<or> \<not> truthy (bodyPlayer2Action b) then
                   Inr (Failure 400 ''Both player actions are required'', store)
                 else if bodyPlayer1Action b \<notin> set validActions
                         \<or> bodyPlayer2Action b \<notin> set validActions then
                   Inr (Failure 400 ''Invalid action. Must be: attack, defend, or charge'', store)
                 else
                   (let (g', battleResult) =
                          processActions g (bodyPlayer1Action b) (bodyPlayer2Action b)
                    in Inr (Success (getGameState g') battleResult, store(gid \<mapsto> g')))))"

text \<open>
  The route with its \<^verbatim>\<open>try\<close> and \<^verbatim>\<open>catch\<close> (lines 228 and 299 to 305): an
  exception is answered with 500, and nothing was written to the store before line 252.
  The route is anonymous in the source; it is named \<open>postActions\<close> here.
\<close>

definition postActions :: "games \<Rightarrow> string \<Rightarrow> requestBody option \<Rightarrow> response \<times> games" where
  "postActions store gid body =
     (case tryActions store gid body of
        Inl e \<Rightarrow> (Failure 500 ''Internal server error'', store)
      | Inr answer \<Rightarrow> answer)"

section \<open>Definitions for the properties\<close>

subsection \<open>The round with the two actions resolved in the opposite order\<close>

text \<open>
  The function \<^verbatim>\<open>processActions\<close> with lines 79 and 80 exchanged: player 2's action
  is executed first, then player 1's. Everything else is the text of \<open>processActions\<close>.
  It is compared with \<open>processActions\<close> in the property on simultaneous resolution.
\<close>

definition processActionsSwapped :: "game \<Rightarrow> jsvalue \<Rightarrow> jsvalue \<Rightarrow> game \<times> battleResult" where
  "processActionsSwapped g player1Action player2Action =
     (let p1 = player1 (players g);
          p2 = player2 (players g);
          g = g\<lparr>lastActions := \<lparr>player1 = player1Action, player2 = player2Action\<rparr>\<rparr>;
          r1 = freshResult;
          r2 = freshResult;
          (p2, r2, r1) = executeAction p2 p1 player2Action r2 r1 ''Player 2'';
          (p1, r1, r2) = executeAction p1 p2 player1Action r1 r2 ''Player 1'';
          r1 = (if defending r1 = Some True \<and> damage r1 > 0
                then r1\<lparr>damage := damage r1 div 2\<rparr> else r1);
          r2 = (if defending r2 = Some True \<and> damage r2 > 0
                then r2\<lparr>damage := damage r2 div 2\<rparr> else r2);
          p1 = p1\<lparr>hp := max 0 (hp p1 - damage r1)\<rparr>;
          p2 = p2\<lparr>hp := max 0 (hp p2 - damage r2)\<rparr>;
          p1 = p1\<lparr>energy := min (maxEnergy p1) (max 0 (energy p1 + energyChange r1))\<rparr>;
          p2 = p2\<lparr>energy := min (maxEnergy p2) (max 0 (energy p2 + energyChange r2))\<rparr>;
          r1 = r1\<lparr>defending := None\<rparr>;
          r2 = r2\<lparr>defending := None\<rparr>;
          battleResult = \<lparr>player1 = r1, player2 = r2, messages = []\<rparr>;
          entry = \<lparr>logRound = round g,
                   actions = \<lparr>player1 = player1Action, player2 = player2Action\<rparr>,
                   results = battleResult,
                   finalHp = \<lparr>player1 = hp p1, player2 = hp p2\<rparr>\<rparr>;
          g = g\<lparr>players := \<lparr>player1 = p1, player2 = p2\<rparr>,
                battleLog := battleLog g @ [entry]\<rparr>;
          g = (if hp p1 \<le> 0 \<or> hp p2 \<le> 0 then
                 g\<lparr>gameStatus := ''finished'',
                   winner := Some (if hp p1 \<le> 0 \<and> hp p2 \<le> 0 then ''tie''
                                   else if hp p1 \<le> 0 then ''player2'' else ''player1'')\<rparr>
               else g)
      in (g\<lparr>round := jsIncrement (round g)\<rparr>, battleResult))"

subsection \<open>What one action does, read off \<^verbatim>\<open>executeAction\<close>\<close>

text \<open>
  The effect of one player's action, computed by \<open>executeAction\<close> on that player as found
  before the round and on two untouched results: the flag \<^verbatim>\<open>charged\<close> it leaves, the
  \<^verbatim>\<open>energyChange\<close>, \<^verbatim>\<open>statusChange\<close> and \<^verbatim>\<open>defending\<close> it writes into the
  player's own result, and the damage it stages in the opponent's result.
  \<open>executeAction\<close> never reads its \<^verbatim>\<open>defender\<close> and \<^verbatim>\<open>attackerName\<close> arguments
  (lemma \<open>executeAction_defender_irrelevant\<close>), so the player itself and the empty name
  stand in for them.
\<close>

definition chargedAfter :: "player \<Rightarrow> jsvalue \<Rightarrow> bool" where
  "chargedAfter a act = charged (fst (executeAction a a act freshResult freshResult []))"

definition energyDelta :: "player \<Rightarrow> jsvalue \<Rightarrow> int" where
  "energyDelta a act = energyChange (fst (snd (executeAction a a act freshResult freshResult [])))"

definition statusMessage :: "player \<Rightarrow> jsvalue \<Rightarrow> string option" where
  "statusMessage a act = statusChange (fst (snd (executeAction a a act freshResult freshResult [])))"

definition isDefending :: "player \<Rightarrow> jsvalue \<Rightarrow> bool option" where
  "isDefending a act = defending (fst (snd (executeAction a a act freshResult freshResult [])))"

definition stagedDamage :: "player \<Rightarrow> jsvalue \<Rightarrow> int" where
  "stagedDamage a act = damage (snd (snd (executeAction a a act freshResult freshResult [])))"

text \<open>Lines 83 to 88 on one result: the damage that is applied, given the \<^verbatim>\<open>defending\<close>
  flag of the result and the damage staged in it.\<close>

definition finalDamage :: "bool option \<Rightarrow> int \<Rightarrow> int" where
  "finalDamage df d = (if df = Some True \<and> d > 0 then d div 2 else d)"

text \<open>
  The round in closed form, in terms of the quantities above. It is only a device of the
  proofs: lemma \<open>processActions_outcome\<close> shows that \<open>processActions\<close> computes exactly
  this, and every property below is stated on \<open>processActions\<close> itself.
\<close>

definition roundOutcome :: "game \<Rightarrow> jsvalue \<Rightarrow> jsvalue \<Rightarrow> game \<times> battleResult" where
  "roundOutcome g a1 a2 =
     (let p1 = player1 (players g); p2 = player2 (players g);
          d1 = finalDamage (isDefending p1 a1) (stagedDamage p2 a2);
          d2 = finalDamage (isDefending p2 a2) (stagedDamage p1 a1);
          h1 = max 0 (hp p1 - d1);
          h2 = max 0 (hp p2 - d2);
          result = \<lparr>player1 = \<lparr>damage = d1, energyChange = energyDelta p1 a1,
                                statusChange = statusMessage p1 a1, defending = None\<rparr>,
                    player2 = \<lparr>damage = d2, energyChange = energyDelta p2 a2,
                                statusChange = statusMessage p2 a2, defending = None\<rparr>,
                    messages = []\<rparr>
      in (g\<lparr>players :=
              \<lparr>player1 = p1\<lparr>charged := chargedAfter p1 a1, hp := h1,
                   energy := min (maxEnergy p1) (max 0 (energy p1 + energyDelta p1 a1))\<rparr>,
               player2 = p2\<lparr>charged := chargedAfter p2 a2, hp := h2,
                   energy := min (maxEnergy p2) (max 0 (energy p2 + energyDelta p2 a2))\<rparr>\<rparr>,
            round := jsIncrement (round g),
            gameStatus := (if h1 \<le> 0 \<or> h2 \<le> 0 then ''finished'' else gameStatus g),
            winner := (if h1 \<le> 0 \<and> h2 \<le> 0 then Some ''tie''
                       else if h1 \<le> 0 then Some ''player2''
                       else if h2 \<le> 0 then Some ''player1'' else winner g),
            lastActions := \<lparr>player1 = a1, player2 = a2\<rparr>,
            battleLog := battleLog g @
              [\<lparr>logRound = round g, actions = \<lparr>player1 = a1, player2 = a2\<rparr>,
                results = result, finalHp = \<lparr>player1 = h1, player2 = h2\<rparr>\<rparr>]\<rparr>,
          result))"

subsection \<open>Notation\<close>

abbreviation attack :: jsvalue where "attack \<equiv> JStr ''attack''"

abbreviation defend :: jsvalue where "defend \<equiv> JStr ''defend''"

abbreviation charge :: jsvalue where "charge \<equiv> JStr ''charge''"

abbreviation playerOne :: "game \<Rightarrow> player" where "playerOne g \<equiv> player1 (players g)"

abbreviation playerTwo :: "game \<Rightarrow> player" where "playerTwo g \<equiv> player2 (players g)"

text \<open>The game after a round, and the \<^verbatim>\<open>battleResult\<close> the round returns.\<close>

abbreviation nextGame :: "game \<Rightarrow> jsvalue \<Rightarrow> jsvalue \<Rightarrow> game" where
  "nextGame g a1 a2 \<equiv> fst (processActions g a1 a2)"

abbreviation report :: "game \<Rightarrow> jsvalue \<Rightarrow> jsvalue \<Rightarrow> battleResult" where
  "report g a1 a2 \<equiv> snd (processActions g a1 a2)"

subsection \<open>The invariant of the data model and the games the server can hold\<close>

definition playerInv :: "player \<Rightarrow> bool" where
  "playerInv p = (0 \<le> hp p \<and> hp p \<le> maxHp p \<and> 0 \<le> energy p \<and> energy p \<le> maxEnergy p)"

definition gameInv :: "game \<Rightarrow> bool" where
  "gameInv g = (playerInv (playerOne g) \<and> playerInv (playerTwo g))"

text \<open>
  A game object only comes into being in \<^verbatim>\<open>createNewGame\<close>, and its fields are only
  written by \<^verbatim>\<open>processActions\<close>. The predicate admits every pair of actions and every
  status, which is more than the route lets through.
\<close>

inductive reachable :: "game \<Rightarrow> bool" where
  reachable_create: "reachable (fst (createNewGame store gid))"
| reachable_round: "reachable g \<Longrightarrow> reachable (fst (processActions g a1 a2))"

subsection \<open>Concrete games\<close>

text \<open>The engine called for a list of rounds, one after the other.\<close>

fun playRounds :: "game \<Rightarrow> (jsvalue \<times> jsvalue) list \<Rightarrow> game" where
  "playRounds g [] = g"
| "playRounds g ((a1, a2) # rest) = playRounds (fst (processActions g a1 a2)) rest"

text \<open>
  A new game; the game after ten rounds in which player 1 alternates attacks and defences
  and player 2 only charges (player 2 is left with 10 hit points); the same with both
  players attacking and defending together (both are left with 10 hit points); the game
  after three rounds of attack against charge (player 1 has no energy left, player 2 is
  charged); the game after \<open>2 ^ 53 - 1\<close> rounds in which both players defend (nobody is hurt
  and the round counter has reached \<open>2 ^ 53\<close>); and two stores.
\<close>

definition freshGame :: game where
  "freshGame = fst (createNewGame Map.empty ''game_1'')"

definition lateGame :: game where
  "lateGame = playRounds freshGame
     [(attack, charge), (attack, charge), (attack, charge), (defend, charge),
      (attack, charge), (defend, charge), (attack, charge), (defend, charge),
      (attack, charge), (defend, charge)]"

definition lateTieGame :: game where
  "lateTieGame = playRounds freshGame
     [(attack, attack), (attack, attack), (attack, attack), (defend, defend),
      (attack, attack), (defend, defend), (attack, attack), (defend, defend),
      (attack, attack), (defend, defend)]"

definition drainedGame :: game where
  "drainedGame = playRounds freshGame [(attack, charge), (attack, charge), (attack, charge)]"

definition saturationRounds :: nat where
  "saturationRounds = 2 ^ 53 - 1"

definition saturatedGame :: game where
  "saturatedGame = playRounds freshGame (replicate saturationRounds (defend, defend))"



section \<open>Properties\<close>

subsection \<open>The increment of a number\<close>

lemma ulpOf_small: "m < 2 ^ 53 \<Longrightarrow> ulpOf m = 1"
  by (simp add: ulpOf.simps)

lemma roundToDouble_exact: "\<bar>n\<bar> < 2 ^ 53 \<Longrightarrow> roundToDouble n = n"
  by (simp add: roundToDouble_def ulpOf_small)

lemma roundToDouble_limit: "roundToDouble (2 ^ 53) = 2 ^ 53"
  by (simp add: roundToDouble_def ulpOf.simps)

text \<open>Below \<open>2 ^ 53\<close> the increment is exact; at \<open>2 ^ 53\<close> the counter stays where it is,
  and one step further up an increment adds 2.\<close>

lemma jsIncrement_exact:
  assumes "0 \<le> n" "n < 2 ^ 53"
  shows "jsIncrement n = n + 1"
proof (cases "n + 1 < 2 ^ 53")
  case True
  with assms show ?thesis by (simp add: jsIncrement_def roundToDouble_exact)
next
  case False
  with assms have n: "n + 1 = 2 ^ 53" by simp
  have "jsIncrement n = roundToDouble (n + 1)" by (simp only: jsIncrement_def)
  also have "\<dots> = roundToDouble (2 ^ 53)" by (simp only: n)
  also have "\<dots> = 2 ^ 53" by (rule roundToDouble_limit)
  finally show ?thesis by (simp only: n)
qed

lemma jsIncrement_limit: "jsIncrement (2 ^ 53) = 2 ^ 53"
  by (simp add: jsIncrement_def roundToDouble_def ulpOf.simps)

lemma jsIncrement_beyond: "jsIncrement (2 ^ 53 + 2) = 2 ^ 53 + 4"
  by (simp add: jsIncrement_def roundToDouble_def ulpOf.simps)

lemma jsIncrement_range:
  assumes "1 \<le> n" "n \<le> 2 ^ 53"
  shows "1 \<le> jsIncrement n \<and> jsIncrement n \<le> 2 ^ 53"
proof (cases "n < 2 ^ 53")
  case True
  with assms show ?thesis by (simp add: jsIncrement_exact)
next
  case False
  with assms have "n = 2 ^ 53" by simp
  then show ?thesis by (simp only: jsIncrement_limit) simp
qed

text \<open>Equations for evaluation, which wait until the counter is a numeral.\<close>

lemma jsIncrement_code [code]:
  "jsIncrement 0 = 1"
  "jsIncrement (Int.Pos k) =
     (if Int.Pos k < 9007199254740992 then Int.Pos k + 1 else roundToDouble (Int.Pos k + 1))"
  "jsIncrement (Int.Neg k) = roundToDouble (Int.Neg k + 1)"
  using jsIncrement_exact [of "Int.Pos k"] jsIncrement_exact [of 0]
  by (simp_all add: jsIncrement_def Int.Pos_def)

subsection \<open>The cases of \<^verbatim>\<open>executeAction\<close>\<close>

lemma executeAction_defender_irrelevant:
  "executeAction a d act ar dr nm = executeAction a d' act ar dr nm'"
  by (simp add: executeAction_def)

lemma executeAction_attack:
  "executeAction p d attack ar dr nm =
     (if 1 \<le> energy p then
        (p\<lparr>charged := False\<rparr>,
         ar\<lparr>energyChange := - 1,
            statusChange := Some (if charged p then ''Charged attack!'' else ''Normal attack!'')\<rparr>,
         dr\<lparr>damage := (if charged p then 25 else 15)\<rparr>)
      else (p, ar\<lparr>statusChange := Some ''Not enough energy!''\<rparr>, dr))"
  by (simp add: executeAction_def)

lemma executeAction_defend:
  "executeAction p d defend ar dr nm =
     (p, ar\<lparr>energyChange := 1, statusChange := Some ''Defending!'', defending := Some True\<rparr>,
      dr)"
  by (simp add: executeAction_def)

lemma executeAction_charge:
  "executeAction p d charge ar dr nm =
     (if 2 \<le> energy p then
        (p\<lparr>charged := True\<rparr>,
         ar\<lparr>energyChange := - 2, statusChange := Some ''Charged up for next attack!''\<rparr>, dr)
      else (p, ar\<lparr>statusChange := Some ''Not enough energy to charge!''\<rparr>, dr))"
  by (simp add: executeAction_def)

lemma executeAction_invalid:
  assumes "a \<noteq> attack" "a \<noteq> defend" "a \<noteq> charge"
  shows "executeAction att d a ar dr nm =
           (att, ar\<lparr>statusChange := Some ''Invalid action!''\<rparr>, dr)"
  using assms by (simp add: executeAction_def)

subsection \<open>The quantities of one action\<close>

lemma chargedAfter_eq:
  "chargedAfter a act =
     (if act = attack \<and> 1 \<le> energy a then False
      else if act = charge \<and> 2 \<le> energy a then True else charged a)"
  by (simp add: chargedAfter_def executeAction_def)

lemma energyDelta_eq:
  "energyDelta a act =
     (if act = attack \<and> 1 \<le> energy a then - 1
      else if act = defend then 1
      else if act = charge \<and> 2 \<le> energy a then - 2 else 0)"
  by (simp add: energyDelta_def executeAction_def freshResult_def)

lemma stagedDamage_eq:
  "stagedDamage a act =
     (if act = attack \<and> 1 \<le> energy a then (if charged a then 25 else 15) else 0)"
  by (simp add: stagedDamage_def executeAction_def freshResult_def)

lemma isDefending_eq: "isDefending a act = Some (act = defend)"
  by (simp add: isDefending_def executeAction_def freshResult_def)

lemma statusMessage_eq:
  "statusMessage a act = Some
     (if act = attack then
        (if 1 \<le> energy a then (if charged a then ''Charged attack!'' else ''Normal attack!'')
         else ''Not enough energy!'')
      else if act = defend then ''Defending!''
      else if act = charge then
        (if 2 \<le> energy a then ''Charged up for next attack!''
         else ''Not enough energy to charge!'')
      else ''Invalid action!'')"
  by (simp add: statusMessage_def executeAction_def freshResult_def)

lemma attack_quantities:
  "chargedAfter p attack = (if 1 \<le> energy p then False else charged p)"
  "energyDelta p attack = (if 1 \<le> energy p then - 1 else 0)"
  "stagedDamage p attack = (if 1 \<le> energy p then (if charged p then 25 else 15) else 0)"
  "statusMessage p attack = Some (if 1 \<le> energy p
      then (if charged p then ''Charged attack!'' else ''Normal attack!'')
      else ''Not enough energy!'')"
  by (simp_all add: chargedAfter_eq energyDelta_eq stagedDamage_eq statusMessage_eq)

lemma charge_quantities:
  "chargedAfter p charge = (if 2 \<le> energy p then True else charged p)"
  "energyDelta p charge = (if 2 \<le> energy p then - 2 else 0)"
  "stagedDamage p charge = 0"
  "statusMessage p charge = Some (if 2 \<le> energy p
      then ''Charged up for next attack!'' else ''Not enough energy to charge!'')"
  by (simp_all add: chargedAfter_eq energyDelta_eq stagedDamage_eq statusMessage_eq)

lemma stagedDamage_nonneg: "0 \<le> stagedDamage a act"
  by (simp add: stagedDamage_eq)

lemma finalDamage_eq:
  "finalDamage (isDefending p a) d = (if a = defend \<and> 0 < d then d div 2 else d)"
  by (simp add: finalDamage_def isDefending_eq)

lemma invalid_quantities:
  assumes "a \<noteq> attack" "a \<noteq> defend" "a \<noteq> charge"
  shows "chargedAfter p a = charged p" "energyDelta p a = 0" "stagedDamage p a = 0"
    "statusMessage p a = Some ''Invalid action!''" "finalDamage (isDefending p a) d = d"
  using assms
  by (simp_all add: chargedAfter_eq energyDelta_eq stagedDamage_eq statusMessage_eq
      finalDamage_eq)

lemma finalDamage_halved:
  "0 \<le> d \<Longrightarrow> finalDamage (isDefending p a) d = (if a = defend then d div 2 else d)"
  by (simp add: finalDamage_eq)

lemma finalDamage_zero: "finalDamage df 0 = 0"
  by (simp add: finalDamage_def)

lemma finalDamage_attack:
  "finalDamage (isDefending q a) (if c then 25 else 15) =
     (if a = defend then (if c then 25 else 15) div 2 else (if c then 25 else 15))"
  by (simp add: finalDamage_eq)

lemma finalDamage_bounds:
  assumes "0 \<le> d"
  shows "0 \<le> finalDamage df d \<and> finalDamage df d \<le> d"
proof -
  have "0 \<le> d div 2" and "d div 2 \<le> d" using assms by presburger+
  then show ?thesis using assms by (simp add: finalDamage_def)
qed

lemma damage_dealt_bounds:
  "0 \<le> finalDamage df (stagedDamage a act)"
  using finalDamage_bounds [OF stagedDamage_nonneg] by blast

lemma hp_after_le:
  assumes "0 \<le> h"
  shows "max 0 (h - finalDamage df (stagedDamage a act)) \<le> (h::int)"
  using assms damage_dealt_bounds [of df a act] by simp

lemma no_damage: "0 \<le> h \<Longrightarrow> max 0 (h - finalDamage df 0) = (h::int)"
  by (simp add: finalDamage_zero)

lemma attack_succeeds:
  assumes "1 \<le> energy p" "energy p \<le> maxEnergy p"
  shows "min (maxEnergy p) (max 0 (energy p + - 1)) = energy p - 1"
    "energyDelta p attack = - 1" "chargedAfter p attack = False"
    "stagedDamage p attack = (if charged p then 25 else 15)"
    "statusMessage p attack = Some (if charged p then ''Charged attack!'' else ''Normal attack!'')"
  using assms by (simp_all add: attack_quantities)

lemma attack_fails:
  assumes "energy p < 1" "0 \<le> energy p" "energy p \<le> maxEnergy p"
  shows "min (maxEnergy p) (max 0 (energy p + 0)) = energy p"
    "energyDelta p attack = 0" "chargedAfter p attack = charged p"
    "stagedDamage p attack = 0"
    "statusMessage p attack = Some ''Not enough energy!''"
  using assms by (simp_all add: attack_quantities)

lemma charge_succeeds:
  assumes "2 \<le> energy p" "energy p \<le> maxEnergy p"
  shows "min (maxEnergy p) (max 0 (energy p + - 2)) = energy p - 2"
    "energyDelta p charge = - 2" "chargedAfter p charge = True"
    "statusMessage p charge = Some ''Charged up for next attack!''"
  using assms by (simp_all add: charge_quantities)

lemma charge_fails:
  assumes "energy p < 2" "0 \<le> energy p" "energy p \<le> maxEnergy p"
  shows "min (maxEnergy p) (max 0 (energy p + 0)) = energy p"
    "energyDelta p charge = 0" "chargedAfter p charge = charged p"
    "statusMessage p charge = Some ''Not enough energy to charge!''"
  using assms by (simp_all add: charge_quantities)

subsection \<open>The round in closed form\<close>

text \<open>
  On results that still hold their initial values in the fields an action writes,
  \<open>executeAction\<close> is three record updates by the quantities above; this covers both
  calls of \<open>processActions\<close>, in either order.
\<close>

lemma executeAction_fresh:
  assumes "energyChange ar = 0" "statusChange ar = None" "defending ar = Some False" "damage dr = 0"
  shows "executeAction a d act ar dr nm =
     (a\<lparr>charged := chargedAfter a act\<rparr>,
      ar\<lparr>energyChange := energyDelta a act, statusChange := statusMessage a act,
         defending := isDefending a act\<rparr>,
      dr\<lparr>damage := stagedDamage a act\<rparr>)"
  using assms
  by (simp add: executeAction_def chargedAfter_def energyDelta_def statusMessage_def
      isDefending_def stagedDamage_def freshResult_def)

lemma fresh_fields:
  "energyChange freshResult = 0" "statusChange freshResult = None"
  "defending freshResult = Some False" "damage freshResult = 0"
  by (simp_all add: freshResult_def)

lemma first_call:
  "executeAction p1 p2 a1 freshResult freshResult nm =
     (p1\<lparr>charged := chargedAfter p1 a1\<rparr>,
      \<lparr>damage = 0, energyChange = energyDelta p1 a1, statusChange = statusMessage p1 a1,
         defending = isDefending p1 a1\<rparr>,
      \<lparr>damage = stagedDamage p1 a1, energyChange = 0, statusChange = None, defending = Some False\<rparr>)"
  by (simp add: executeAction_fresh fresh_fields)

lemma second_call:
  "executeAction p2 p1' a2
      \<lparr>damage = s, energyChange = 0, statusChange = None, defending = Some False\<rparr>
      \<lparr>damage = 0, energyChange = e, statusChange = m, defending = df\<rparr> nm =
     (p2\<lparr>charged := chargedAfter p2 a2\<rparr>,
      \<lparr>damage = s, energyChange = energyDelta p2 a2, statusChange = statusMessage p2 a2,
         defending = isDefending p2 a2\<rparr>,
      \<lparr>damage = stagedDamage p2 a2, energyChange = e, statusChange = m, defending = df\<rparr>)"
  by (simp add: executeAction_fresh)

lemma halve_eq:
  "(if df = Some True \<and> 0 < d
    then \<lparr>damage = d div 2, energyChange = e, statusChange = m, defending = Some True\<rparr>
    else \<lparr>damage = d, energyChange = e, statusChange = m, defending = df\<rparr>) =
   \<lparr>damage = finalDamage df d, energyChange = e, statusChange = m, defending = df\<rparr>"
  by (simp add: finalDamage_def)

lemma processActions_outcome: "processActions g a1 a2 = roundOutcome g a1 a2"
  by (simp add: processActions_def roundOutcome_def Let_def first_call second_call halve_eq
      cong: if_cong)

lemma processActionsSwapped_outcome: "processActionsSwapped g a1 a2 = roundOutcome g a1 a2"
  by (simp add: processActionsSwapped_def roundOutcome_def Let_def first_call second_call halve_eq
      cong: if_cong)

text \<open>The fields of the game and of the battle result after a round.\<close>

lemma next_round: "round (nextGame g a1 a2) = jsIncrement (round g)"
  by (simp add: processActions_outcome roundOutcome_def Let_def)

lemma next_playerOne:
  "playerOne (nextGame g a1 a2) = (playerOne g)
     \<lparr>charged := chargedAfter (playerOne g) a1,
      hp := max 0 (hp (playerOne g) - finalDamage (isDefending (playerOne g) a1)
                                         (stagedDamage (playerTwo g) a2)),
      energy := min (maxEnergy (playerOne g))
                    (max 0 (energy (playerOne g) + energyDelta (playerOne g) a1))\<rparr>"
  by (simp add: processActions_outcome roundOutcome_def Let_def)

lemma next_playerTwo:
  "playerTwo (nextGame g a1 a2) = (playerTwo g)
     \<lparr>charged := chargedAfter (playerTwo g) a2,
      hp := max 0 (hp (playerTwo g) - finalDamage (isDefending (playerTwo g) a2)
                                         (stagedDamage (playerOne g) a1)),
      energy := min (maxEnergy (playerTwo g))
                    (max 0 (energy (playerTwo g) + energyDelta (playerTwo g) a2))\<rparr>"
  by (simp add: processActions_outcome roundOutcome_def Let_def)

lemma report_player1:
  "player1 (report g a1 a2) =
     \<lparr>damage = finalDamage (isDefending (playerOne g) a1) (stagedDamage (playerTwo g) a2),
      energyChange = energyDelta (playerOne g) a1,
      statusChange = statusMessage (playerOne g) a1, defending = None\<rparr>"
  by (simp add: processActions_outcome roundOutcome_def Let_def)

lemma report_player2:
  "player2 (report g a1 a2) =
     \<lparr>damage = finalDamage (isDefending (playerTwo g) a2) (stagedDamage (playerOne g) a1),
      energyChange = energyDelta (playerTwo g) a2,
      statusChange = statusMessage (playerTwo g) a2, defending = None\<rparr>"
  by (simp add: processActions_outcome roundOutcome_def Let_def)

lemmas next_fields = next_playerOne next_playerTwo report_player1 report_player2

lemma next_one:
  "charged (playerOne (nextGame g a1 a2)) = chargedAfter (playerOne g) a1"
  "hp (playerOne (nextGame g a1 a2)) =
     max 0 (hp (playerOne g) - finalDamage (isDefending (playerOne g) a1)
                                  (stagedDamage (playerTwo g) a2))"
  "energy (playerOne (nextGame g a1 a2)) =
     min (maxEnergy (playerOne g)) (max 0 (energy (playerOne g) + energyDelta (playerOne g) a1))"
  "energyChange (player1 (report g a1 a2)) = energyDelta (playerOne g) a1"
  "statusChange (player1 (report g a1 a2)) = statusMessage (playerOne g) a1"
  "damage (player1 (report g a1 a2)) =
     finalDamage (isDefending (playerOne g) a1) (stagedDamage (playerTwo g) a2)"
  by (simp_all add: next_playerOne report_player1)

lemma next_two:
  "charged (playerTwo (nextGame g a1 a2)) = chargedAfter (playerTwo g) a2"
  "hp (playerTwo (nextGame g a1 a2)) =
     max 0 (hp (playerTwo g) - finalDamage (isDefending (playerTwo g) a2)
                                  (stagedDamage (playerOne g) a1))"
  "energy (playerTwo (nextGame g a1 a2)) =
     min (maxEnergy (playerTwo g)) (max 0 (energy (playerTwo g) + energyDelta (playerTwo g) a2))"
  "energyChange (player2 (report g a1 a2)) = energyDelta (playerTwo g) a2"
  "statusChange (player2 (report g a1 a2)) = statusMessage (playerTwo g) a2"
  "damage (player2 (report g a1 a2)) =
     finalDamage (isDefending (playerTwo g) a2) (stagedDamage (playerOne g) a1)"
  by (simp_all add: next_playerTwo report_player2)

lemma next_gameStatus:
  "gameStatus (nextGame g a1 a2) =
     (if hp (playerOne (nextGame g a1 a2)) \<le> 0 \<or> hp (playerTwo (nextGame g a1 a2)) \<le> 0
      then ''finished'' else gameStatus g)"
  by (simp add: processActions_outcome roundOutcome_def Let_def)

lemma next_winner:
  "winner (nextGame g a1 a2) =
     (if hp (playerOne (nextGame g a1 a2)) \<le> 0 \<and> hp (playerTwo (nextGame g a1 a2)) \<le> 0
      then Some ''tie''
      else if hp (playerOne (nextGame g a1 a2)) \<le> 0 then Some ''player2''
      else if hp (playerTwo (nextGame g a1 a2)) \<le> 0 then Some ''player1''
      else winner g)"
  by (simp add: processActions_outcome roundOutcome_def Let_def)

lemma frame_next:
  "maxHp (playerOne (nextGame g a1 a2)) = maxHp (playerOne g)"
  "maxEnergy (playerOne (nextGame g a1 a2)) = maxEnergy (playerOne g)"
  "maxHp (playerTwo (nextGame g a1 a2)) = maxHp (playerTwo g)"
  "maxEnergy (playerTwo (nextGame g a1 a2)) = maxEnergy (playerTwo g)"
  by (simp_all add: next_playerOne next_playerTwo)

subsection \<open>The invariant holds in every game the server can hold\<close>

lemma playerInv_step:
  assumes "playerInv p"
  shows "playerInv (p\<lparr>charged := c,
            hp := max 0 (hp p - finalDamage df (stagedDamage a act)),
            energy := min (maxEnergy p) (max 0 (energy p + e))\<rparr>)"
proof -
  from assms have h: "0 \<le> hp p" "hp p \<le> maxHp p" and en: "0 \<le> maxEnergy p"
    by (simp_all add: playerInv_def)
  have "max 0 (hp p - finalDamage df (stagedDamage a act)) \<le> maxHp p"
    using hp_after_le [OF h(1), of df a act] h(2) by linarith
  with en show ?thesis by (simp add: playerInv_def)
qed

lemma gameInv_next:
  assumes "gameInv g"
  shows "gameInv (nextGame g a1 a2)"
  using assms unfolding gameInv_def next_playerOne next_playerTwo
  by (blast intro: playerInv_step)

lemma createNewGame_fields:
  "players (fst (createNewGame store gid)) =
     \<lparr>player1 = newPlayer ''player1'' ''Player 1'', player2 = newPlayer ''player2'' ''Player 2''\<rparr>"
  "round (fst (createNewGame store gid)) = 1"
  "gameStatus (fst (createNewGame store gid)) = ''active''"
  "winner (fst (createNewGame store gid)) = None"
  by (simp_all add: createNewGame_def Let_def)

lemma gameInv_created: "gameInv (fst (createNewGame store gid))"
  by (simp add: gameInv_def playerInv_def createNewGame_fields newPlayer_def)

lemma reachable_gameInv: "reachable g \<Longrightarrow> gameInv g"
  by (induction rule: reachable.induct) (simp_all add: gameInv_created gameInv_next)

lemma reachable_bounds:
  assumes "reachable g"
  shows "0 \<le> hp (playerOne g)" "0 \<le> energy (playerOne g)"
    "energy (playerOne g) \<le> maxEnergy (playerOne g)"
    "0 \<le> hp (playerTwo g)" "0 \<le> energy (playerTwo g)"
    "energy (playerTwo g) \<le> maxEnergy (playerTwo g)"
  using reachable_gameInv [OF assms] by (simp_all add: gameInv_def playerInv_def)

lemma reachable_limits:
  assumes "reachable g"
  shows "maxHp (playerOne g) = 100 \<and> maxEnergy (playerOne g) = 5 \<and>
         maxHp (playerTwo g) = 100 \<and> maxEnergy (playerTwo g) = 5"
  using assms
  by (induction rule: reachable.induct)
     (simp_all add: frame_next createNewGame_fields newPlayer_def)

lemma reachable_playRounds: "reachable g \<Longrightarrow> reachable (playRounds g rs)"
  by (induction g rs rule: playRounds.induct) (simp_all add: reachable_round)

subsection \<open>The concrete games\<close>

lemma reachable_freshGame: "reachable freshGame"
  unfolding freshGame_def by (rule reachable_create)

lemma reachable_lateGame: "reachable lateGame"
  unfolding lateGame_def by (rule reachable_playRounds [OF reachable_freshGame])

lemma reachable_lateTieGame: "reachable lateTieGame"
  unfolding lateTieGame_def by (rule reachable_playRounds [OF reachable_freshGame])

lemma reachable_drainedGame: "reachable drainedGame"
  unfolding drainedGame_def by (rule reachable_playRounds [OF reachable_freshGame])

lemma freshGame_fields:
  "players freshGame =
     \<lparr>player1 = newPlayer ''player1'' ''Player 1'', player2 = newPlayer ''player2'' ''Player 2''\<rparr>"
  "round freshGame = 1" "gameStatus freshGame = ''active''" "winner freshGame = None"
  by (simp_all add: freshGame_def createNewGame_fields)

lemma lateGame_fields:
  "players lateGame =
     \<lparr>player1 = \<lparr>playerId = ''player1'', name = ''Player 1'', hp = 100, maxHp = 100,
                  energy = 1, maxEnergy = 5, charged = False, playerStatus = ''active''\<rparr>,
      player2 = \<lparr>playerId = ''player2'', name = ''Player 2'', hp = 10, maxHp = 100,
                  energy = 1, maxEnergy = 5, charged = True, playerStatus = ''active''\<rparr>\<rparr>"
  "round lateGame = 11" "gameStatus lateGame = ''active''" "winner lateGame = None"
  by code_simp+

lemma lateTieGame_fields:
  "players lateTieGame =
     \<lparr>player1 = \<lparr>playerId = ''player1'', name = ''Player 1'', hp = 10, maxHp = 100,
                  energy = 1, maxEnergy = 5, charged = False, playerStatus = ''active''\<rparr>,
      player2 = \<lparr>playerId = ''player2'', name = ''Player 2'', hp = 10, maxHp = 100,
                  energy = 1, maxEnergy = 5, charged = False, playerStatus = ''active''\<rparr>\<rparr>"
  "round lateTieGame = 11" "gameStatus lateTieGame = ''active''" "winner lateTieGame = None"
  by code_simp+

lemma drainedGame_fields:
  "players drainedGame =
     \<lparr>player1 = \<lparr>playerId = ''player1'', name = ''Player 1'', hp = 100, maxHp = 100,
                  energy = 0, maxEnergy = 5, charged = False, playerStatus = ''active''\<rparr>,
      player2 = \<lparr>playerId = ''player2'', name = ''Player 2'', hp = 55, maxHp = 100,
                  energy = 1, maxEnergy = 5, charged = True, playerStatus = ''active''\<rparr>\<rparr>"
  "round drainedGame = 4" "gameStatus drainedGame = ''active''" "winner drainedGame = None"
  by code_simp+



subsection \<open>The round counter in the games the server can hold\<close>

lemma reachable_round_range:
  assumes "reachable g"
  shows "1 \<le> round g \<and> round g \<le> 2 ^ 53"
  using assms
proof (induction rule: reachable.induct)
  case (reachable_create store gid)
  show ?case by (simp add: createNewGame_fields)
next
  case (reachable_round g a1 a2)
  then show ?case by (simp only: next_round jsIncrement_range)
qed





lemma reachable_saturatedGame: "reachable saturatedGame"
  unfolding saturatedGame_def by (rule reachable_playRounds [OF reachable_freshGame])



subsection \<open>The route\<close>

lemma member_validActions:
  "(a \<in> set validActions) = (a = attack \<or> a = defend \<or> a = charge)"
  by (auto simp add: validActions_def)

lemma postActions_accepted:
  assumes "store gid = Some g" "gameStatus g = ''active''"
    "bodyPlayer1Action b \<in> {attack, defend, charge}"
    "bodyPlayer2Action b \<in> {attack, defend, charge}"
  shows "postActions store gid (Some b) =
     (Success (getGameState (nextGame g (bodyPlayer1Action b) (bodyPlayer2Action b)))
        (report g (bodyPlayer1Action b) (bodyPlayer2Action b)),
      store(gid \<mapsto> nextGame g (bodyPlayer1Action b) (bodyPlayer2Action b)))"
  using assms
  by (auto simp add: postActions_def tryActions_def member_validActions split: prod.splits)

text \<open>With no parsed body, and \<^verbatim>\<open>req.body\<close> therefore \<^verbatim>\<open>undefined\<close>, a known active
  game is answered 500 by the \<^verbatim>\<open>catch\<close>, and the store is as before.\<close>

lemma postActions_unparsed_body:
  assumes "store gid = Some g" "gameStatus g = ''active''"
  shows "postActions store gid None = (Failure 500 ''Internal server error'', store)"
  using assms by (simp add: postActions_def tryActions_def)

text \<open>The store after the call differs from the store before it only on success.\<close>

lemma postActions_failure_keeps_store:
  assumes "fst (postActions store gid body) = Failure code msg"
  shows "snd (postActions store gid body) = store"
  using assms
  by (auto simp add: postActions_def tryActions_def split: option.splits if_splits prod.splits)

subsection \<open>The round counter\<close>




subsection \<open>An action outside the three\<close>

lemma clamp_id: "0 \<le> e \<Longrightarrow> e \<le> m \<Longrightarrow> min m (max 0 (e + 0)) = (e::int)"
  by simp

lemma unhurt: "0 \<le> h \<Longrightarrow> max 0 (h - 0) = (h::int)"
  by simp

lemma player_same:
  "p\<lparr>charged := charged p, hp := h, energy := energy p\<rparr> = p\<lparr>hp := h\<rparr>"
  "p\<lparr>charged := c, hp := hp p, energy := e\<rparr> = p\<lparr>charged := c, energy := e\<rparr>"
  by (cases p, simp)+

text \<open>
  Claim C2, as amended. When a player's action is none of \<^verbatim>\<open>attack\<close>, \<^verbatim>\<open>defend\<close>,
  \<^verbatim>\<open>charge\<close>, \<open>executeAction\<close> returns the attacker and the opponent's result
  untouched and only sets the status message \<^verbatim>\<open>Invalid action!\<close> in the attacker's
  result. In every game the server can hold, and whatever the other player does, the whole
  outcome of the round is then exactly this: the player's reported energy change is 0 and
  the damage reported for the opponent is 0; the player's record changes only in the hit
  points, by the damage the opponent's action staged, in full; the opponent's record changes
  only in the \<^verbatim>\<open>charged\<close> flag and the energy, as the opponent's own action makes them;
  and the round is recorded as any other round is: \<^verbatim>\<open>lastActions\<close> is overwritten, one
  log entry is appended, the end-of-game test runs on the new hit points and the round
  counter is incremented. The second equation is for player 1's action, the third for
  player 2's.
\<close>

theorem C2_invalid_action_only_reports:
  assumes "reachable g" and "a \<noteq> attack" "a \<noteq> defend" "a \<noteq> charge"
  shows "executeAction att d a ar dr nm =
           (att, ar\<lparr>statusChange := Some ''Invalid action!''\<rparr>, dr) \<and>
         processActions g a a2 =
           (let p1 = playerOne g; p2 = playerTwo g;
                h1 = max 0 (hp p1 - stagedDamage p2 a2);
                result =
                  \<lparr>player1 = \<lparr>damage = stagedDamage p2 a2, energyChange = 0,
                               statusChange = Some ''Invalid action!'', defending = None\<rparr>,
                   player2 = \<lparr>damage = 0, energyChange = energyDelta p2 a2,
                               statusChange = statusMessage p2 a2, defending = None\<rparr>,
                   messages = []\<rparr>
            in (g\<lparr>players :=
                    \<lparr>player1 = p1\<lparr>hp := h1\<rparr>,
                     player2 = p2\<lparr>charged := chargedAfter p2 a2,
                                 energy := min (maxEnergy p2)
                                             (max 0 (energy p2 + energyDelta p2 a2))\<rparr>\<rparr>,
                  round := jsIncrement (round g),
                  gameStatus := (if h1 \<le> 0 \<or> hp p2 \<le> 0 then ''finished'' else gameStatus g),
                  winner := (if h1 \<le> 0 \<and> hp p2 \<le> 0 then Some ''tie''
                             else if h1 \<le> 0 then Some ''player2''
                             else if hp p2 \<le> 0 then Some ''player1'' else winner g),
                  lastActions := \<lparr>player1 = a, player2 = a2\<rparr>,
                  battleLog := battleLog g @
                    [\<lparr>logRound = round g, actions = \<lparr>player1 = a, player2 = a2\<rparr>,
                      results = result, finalHp = \<lparr>player1 = h1, player2 = hp p2\<rparr>\<rparr>]\<rparr>,
                result)) \<and>
         processActions g a1 a =
           (let p1 = playerOne g; p2 = playerTwo g;
                h2 = max 0 (hp p2 - stagedDamage p1 a1);
                result =
                  \<lparr>player1 = \<lparr>damage = 0, energyChange = energyDelta p1 a1,
                               statusChange = statusMessage p1 a1, defending = None\<rparr>,
                   player2 = \<lparr>damage = stagedDamage p1 a1, energyChange = 0,
                               statusChange = Some ''Invalid action!'', defending = None\<rparr>,
                   messages = []\<rparr>
            in (g\<lparr>players :=
                    \<lparr>player1 = p1\<lparr>charged := chargedAfter p1 a1,
                                 energy := min (maxEnergy p1)
                                             (max 0 (energy p1 + energyDelta p1 a1))\<rparr>,
                     player2 = p2\<lparr>hp := h2\<rparr>\<rparr>,
                  round := jsIncrement (round g),
                  gameStatus := (if hp p1 \<le> 0 \<or> h2 \<le> 0 then ''finished'' else gameStatus g),
                  winner := (if hp p1 \<le> 0 \<and> h2 \<le> 0 then Some ''tie''
                             else if hp p1 \<le> 0 then Some ''player2''
                             else if h2 \<le> 0 then Some ''player1'' else winner g),
                  lastActions := \<lparr>player1 = a1, player2 = a\<rparr>,
                  battleLog := battleLog g @
                    [\<lparr>logRound = round g, actions = \<lparr>player1 = a1, player2 = a\<rparr>,
                      results = result, finalHp = \<lparr>player1 = hp p1, player2 = h2\<rparr>\<rparr>]\<rparr>,
                result))"
proof -
  note b = reachable_bounds [OF assms(1)]
  note q = invalid_quantities [OF assms(2-4)]
  note ids = clamp_id [OF b(2,3)] clamp_id [OF b(5,6)] unhurt [OF b(1)] unhurt [OF b(4)]
  have one: "processActions g a a2 = roundOutcome g a a2"
    and two: "processActions g a1 a = roundOutcome g a1 a"
    by (rule processActions_outcome)+
  show ?thesis
    unfolding one two roundOutcome_def Let_def
    by (simp only: executeAction_invalid [OF assms(2-4)] q finalDamage_zero ids player_same
        simp_thms)
qed

theorem C2_invalid_action_only_reports_witness:
  "reachable freshGame \<and> JStr ''heal'' \<noteq> attack \<and> JStr ''heal'' \<noteq> defend \<and>
   JStr ''heal'' \<noteq> charge \<and>
   players (nextGame freshGame (JStr ''heal'') attack) =
     \<lparr>player1 = (newPlayer ''player1'' ''Player 1'')\<lparr>hp := 85\<rparr>,
      player2 = (newPlayer ''player2'' ''Player 2'')\<lparr>energy := 2\<rparr>\<rparr> \<and>
   player1 (report freshGame (JStr ''heal'') attack) =
     \<lparr>damage = 15, energyChange = 0, statusChange = Some ''Invalid action!'',
      defending = None\<rparr> \<and>
   gameStatus (nextGame freshGame (JStr ''heal'') attack) = ''active''"
proof -
  have h: "JStr ''heal'' \<noteq> attack" "JStr ''heal'' \<noteq> defend" "JStr ''heal'' \<noteq> charge"
    by simp_all
  have "fst (processActions freshGame (JStr ''heal'') attack) = nextGame freshGame (JStr ''heal'') attack"
    by simp
  show ?thesis
    using reachable_freshGame h
      C2_invalid_action_only_reports [OF reachable_freshGame h,
        where ?a2.0 = attack and ?a1.0 = attack]
    by (simp add: Let_def freshGame_fields newPlayer_def stagedDamage_eq chargedAfter_eq
        energyDelta_eq)
qed

text \<open>
  The claim as first stated (no state change beyond the status message) fails in a new game
  where both players submit \<^verbatim>\<open>heal\<close>: the two players are as before, yet the round
  counter goes from 1 to 2, the log has one entry and \<^verbatim>\<open>lastActions\<close> holds the two
  submitted values.
\<close>

theorem C2_counterexample:
  "JStr ''heal'' \<notin> set validActions \<and>
   round freshGame = 1 \<and> battleLog freshGame = [] \<and>
   lastActions freshGame = \<lparr>player1 = JNull, player2 = JNull\<rparr> \<and>
   players (nextGame freshGame (JStr ''heal'') (JStr ''heal'')) = players freshGame \<and>
   round (nextGame freshGame (JStr ''heal'') (JStr ''heal'')) = 2 \<and>
   length (battleLog (nextGame freshGame (JStr ''heal'') (JStr ''heal''))) = 1 \<and>
   lastActions (nextGame freshGame (JStr ''heal'') (JStr ''heal'')) =
     \<lparr>player1 = JStr ''heal'', player2 = JStr ''heal''\<rparr>"
  by code_simp

subsection \<open>End of the game\<close>

text \<open>
  Claim C3. After a round resolved on an active game the status is \<^verbatim>\<open>finished\<close>
  exactly when at least one player's hit points are at most 0, and it is still
  \<^verbatim>\<open>active\<close> otherwise. The winner is \<^verbatim>\<open>tie\<close> when both are at most 0,
  otherwise the one player whose hit points stayed positive; when both stay positive the
  \<^verbatim>\<open>winner\<close> field is not written.
\<close>

theorem C3_termination_check:
  assumes "gameStatus g = ''active''"
  shows "(gameStatus (nextGame g a1 a2) = ''finished'') =
           (hp (playerOne (nextGame g a1 a2)) \<le> 0 \<or> hp (playerTwo (nextGame g a1 a2)) \<le> 0) \<and>
         gameStatus (nextGame g a1 a2) =
           (if hp (playerOne (nextGame g a1 a2)) \<le> 0 \<or> hp (playerTwo (nextGame g a1 a2)) \<le> 0
            then ''finished'' else ''active'') \<and>
         winner (nextGame g a1 a2) =
           (if hp (playerOne (nextGame g a1 a2)) \<le> 0 \<and> hp (playerTwo (nextGame g a1 a2)) \<le> 0
            then Some ''tie''
            else if hp (playerOne (nextGame g a1 a2)) \<le> 0 then Some ''player2''
            else if hp (playerTwo (nextGame g a1 a2)) \<le> 0 then Some ''player1''
            else winner g)"
proof -
  have "gameStatus (nextGame g a1 a2) =
      (if hp (playerOne (nextGame g a1 a2)) \<le> 0 \<or> hp (playerTwo (nextGame g a1 a2)) \<le> 0
       then ''finished'' else ''active'')"
    using assms by (simp only: next_gameStatus)
  moreover have "''finished'' \<noteq> ''active''" by simp
  ultimately show ?thesis using next_winner [of g a1 a2] by (simp split: if_splits)
qed

theorem C3_termination_check_witness:
  "gameStatus lateTieGame = ''active'' \<and> gameStatus lateGame = ''active'' \<and>
   gameStatus freshGame = ''active'' \<and>
   gameStatus (nextGame lateTieGame attack attack) = ''finished'' \<and>
   winner (nextGame lateTieGame attack attack) = Some ''tie'' \<and>
   gameStatus (nextGame lateGame attack charge) = ''finished'' \<and>
   winner (nextGame lateGame attack charge) = Some ''player1'' \<and>
   gameStatus (nextGame lateTieGame charge attack) = ''finished'' \<and>
   winner (nextGame lateTieGame charge attack) = Some ''player2'' \<and>
   gameStatus (nextGame freshGame attack defend) = ''active'' \<and>
   winner (nextGame freshGame attack defend) = None"
proof -
  have a: "gameStatus lateTieGame = ''active''" "gameStatus lateGame = ''active''"
    "gameStatus freshGame = ''active''"
    by (simp_all add: lateTieGame_fields lateGame_fields freshGame_fields)
  show ?thesis
    using a C3_termination_check [OF a(1), of attack attack]
      C3_termination_check [OF a(2), of attack charge]
      C3_termination_check [OF a(1), of charge attack]
      C3_termination_check [OF a(3), of attack defend]
    by (simp add: lateTieGame_fields lateGame_fields freshGame_fields newPlayer_def next_fields
        finalDamage_eq stagedDamage_eq)
qed

subsection \<open>Bounds of hit points and energy\<close>

text \<open>
  Claim C4. When both players satisfy \<open>0 \<le> hp \<le> maxHp\<close> and
  \<open>0 \<le> energy \<le> maxEnergy\<close> before a round (\<open>gameInv\<close>), they satisfy them after it,
  and \<^verbatim>\<open>maxHp\<close> and \<^verbatim>\<open>maxEnergy\<close> (100 and 5 in every game the server can
  hold, lemma \<open>reachable_limits\<close>) are never written. This holds for every pair of
  actions, so in particular for the three valid ones.
\<close>

theorem C4_bounds_preserved:
  assumes "gameInv g"
  shows "gameInv (nextGame g a1 a2) \<and>
         maxHp (playerOne (nextGame g a1 a2)) = maxHp (playerOne g) \<and>
         maxEnergy (playerOne (nextGame g a1 a2)) = maxEnergy (playerOne g) \<and>
         maxHp (playerTwo (nextGame g a1 a2)) = maxHp (playerTwo g) \<and>
         maxEnergy (playerTwo (nextGame g a1 a2)) = maxEnergy (playerTwo g)"
  using gameInv_next [OF assms] by (simp add: frame_next)

theorem C4_bounds_preserved_witness:
  "gameInv freshGame \<and> maxHp (playerOne freshGame) = 100 \<and> maxEnergy (playerOne freshGame) = 5 \<and>
   gameInv (nextGame freshGame attack defend) \<and>
   maxHp (playerOne (nextGame freshGame attack defend)) = 100 \<and>
   maxEnergy (playerOne (nextGame freshGame attack defend)) = 5"
proof -
  have a: "gameInv freshGame"
    by (simp add: gameInv_def playerInv_def freshGame_fields newPlayer_def)
  show ?thesis using a C4_bounds_preserved [OF a, of attack defend]
    by (simp add: freshGame_fields newPlayer_def)
qed

subsection \<open>Defending\<close>

text \<open>
  Claim C5. In every game the server can hold: a player who chooses \<^verbatim>\<open>defend\<close> ends
  the round with one more energy, capped at \<^verbatim>\<open>maxEnergy\<close>, whatever the opponent
  does. The damage applied to a player is the damage the opponent's action staged
  (\<open>stagedDamage\<close>, for any action of the opponent), halved with floor division when the
  player chose \<^verbatim>\<open>defend\<close> and in full otherwise; nothing else adjusts it, and the
  player's hit points drop by that damage, floored at 0.
\<close>

theorem C5_defend:
  assumes "reachable g"
  shows "energy (playerOne (nextGame g defend a2)) =
           min (maxEnergy (playerOne g)) (energy (playerOne g) + 1) \<and>
         energy (playerTwo (nextGame g a1 defend)) =
           min (maxEnergy (playerTwo g)) (energy (playerTwo g) + 1) \<and>
         energyChange (player1 (report g defend a2)) = 1 \<and>
         energyChange (player2 (report g a1 defend)) = 1 \<and>
         damage (player1 (report g a1 a2)) =
           (if a1 = defend then stagedDamage (playerTwo g) a2 div 2
            else stagedDamage (playerTwo g) a2) \<and>
         damage (player2 (report g a1 a2)) =
           (if a2 = defend then stagedDamage (playerOne g) a1 div 2
            else stagedDamage (playerOne g) a1) \<and>
         hp (playerOne (nextGame g a1 a2)) =
           max 0 (hp (playerOne g) - damage (player1 (report g a1 a2))) \<and>
         hp (playerTwo (nextGame g a1 a2)) =
           max 0 (hp (playerTwo g) - damage (player2 (report g a1 a2)))"
proof -
  note b = reachable_bounds [OF assms]
  have e: "energyDelta p defend = 1" for p by (simp add: energyDelta_eq)
  have en: "energy (playerOne (nextGame g defend a2)) =
              min (maxEnergy (playerOne g)) (energy (playerOne g) + 1)"
    "energy (playerTwo (nextGame g a1 defend)) =
              min (maxEnergy (playerTwo g)) (energy (playerTwo g) + 1)"
    using b by (simp_all add: next_fields e)
  have d: "finalDamage (isDefending p a) (stagedDamage q a') =
      (if a = defend then stagedDamage q a' div 2 else stagedDamage q a')" for p q a a'
    by (rule finalDamage_halved [OF stagedDamage_nonneg])
  show ?thesis using en by (simp add: next_fields e d)
qed

theorem C5_defend_witness:
  "reachable freshGame \<and>
   energy (playerTwo (nextGame freshGame attack defend)) = 4 \<and>
   damage (player2 (report freshGame attack defend)) = 7 \<and>
   hp (playerTwo (nextGame freshGame attack defend)) = 93 \<and>
   damage (player2 (report freshGame attack charge)) = 15 \<and>
   hp (playerTwo (nextGame freshGame attack charge)) = 85"
  using reachable_freshGame C5_defend [OF reachable_freshGame, where ?a1.0 = attack and ?a2.0 = defend]
    C5_defend [OF reachable_freshGame, where ?a1.0 = attack and ?a2.0 = charge]
  by (simp add: freshGame_fields newPlayer_def stagedDamage_eq)

subsection \<open>Attacking\<close>

text \<open>
  Claim C6. In every game the server can hold, for a player who chooses \<^verbatim>\<open>attack\<close>.
  With at least 1 energy before the round the player loses exactly 1 energy, the
  \<^verbatim>\<open>charged\<close> flag is \<open>False\<close> afterwards, and the damage staged against the opponent
  is 25 when the flag was set before the round and 15 otherwise (the opponent's hit points
  drop by it, halved when the opponent defends). With less than 1 energy the player's energy
  and flag and the opponent's hit points are unchanged and the status message is
  \<^verbatim>\<open>Not enough energy!\<close>. The first two parts are for player 1, the last two for
  player 2.
\<close>

theorem C6_attack:
  assumes "reachable g"
  shows "(1 \<le> energy (playerOne g) \<longrightarrow>
            energy (playerOne (nextGame g attack a2)) = energy (playerOne g) - 1 \<and>
            energyChange (player1 (report g attack a2)) = - 1 \<and>
            charged (playerOne (nextGame g attack a2)) = False \<and>
            stagedDamage (playerOne g) attack = (if charged (playerOne g) then 25 else 15) \<and>
            hp (playerTwo (nextGame g attack a2)) =
              max 0 (hp (playerTwo g) -
                (if a2 = defend then (if charged (playerOne g) then 25 else 15) div 2
                 else (if charged (playerOne g) then 25 else 15))) \<and>
            statusChange (player1 (report g attack a2)) =
              Some (if charged (playerOne g) then ''Charged attack!'' else ''Normal attack!'')) \<and>
         (energy (playerOne g) < 1 \<longrightarrow>
            energy (playerOne (nextGame g attack a2)) = energy (playerOne g) \<and>
            energyChange (player1 (report g attack a2)) = 0 \<and>
            charged (playerOne (nextGame g attack a2)) = charged (playerOne g) \<and>
            stagedDamage (playerOne g) attack = 0 \<and>
            hp (playerTwo (nextGame g attack a2)) = hp (playerTwo g) \<and>
            statusChange (player1 (report g attack a2)) = Some ''Not enough energy!'') \<and>
         (1 \<le> energy (playerTwo g) \<longrightarrow>
            energy (playerTwo (nextGame g a1 attack)) = energy (playerTwo g) - 1 \<and>
            energyChange (player2 (report g a1 attack)) = - 1 \<and>
            charged (playerTwo (nextGame g a1 attack)) = False \<and>
            stagedDamage (playerTwo g) attack = (if charged (playerTwo g) then 25 else 15) \<and>
            hp (playerOne (nextGame g a1 attack)) =
              max 0 (hp (playerOne g) -
                (if a1 = defend then (if charged (playerTwo g) then 25 else 15) div 2
                 else (if charged (playerTwo g) then 25 else 15))) \<and>
            statusChange (player2 (report g a1 attack)) =
              Some (if charged (playerTwo g) then ''Charged attack!'' else ''Normal attack!'')) \<and>
         (energy (playerTwo g) < 1 \<longrightarrow>
            energy (playerTwo (nextGame g a1 attack)) = energy (playerTwo g) \<and>
            energyChange (player2 (report g a1 attack)) = 0 \<and>
            charged (playerTwo (nextGame g a1 attack)) = charged (playerTwo g) \<and>
            stagedDamage (playerTwo g) attack = 0 \<and>
            hp (playerOne (nextGame g a1 attack)) = hp (playerOne g) \<and>
            statusChange (player2 (report g a1 attack)) = Some ''Not enough energy!'')"
    (is "(?A1 \<longrightarrow> ?S1) \<and> (?B1 \<longrightarrow> ?F1) \<and> (?A2 \<longrightarrow> ?S2) \<and> (?B2 \<longrightarrow> ?F2)")
proof -
  note b = reachable_bounds [OF assms]
  have s1: "?A1 \<longrightarrow> ?S1"
  proof
    assume that: "?A1"
    show "?S1"
      unfolding next_one next_two
      by (simp only: attack_succeeds [OF that b(3)] finalDamage_attack simp_thms)
  qed
  have f1: "?B1 \<longrightarrow> ?F1"
  proof
    assume that: "?B1"
    show "?F1"
      unfolding next_one next_two
      by (simp only: attack_fails [OF that b(2,3)] no_damage [OF b(4)] simp_thms)
  qed
  have s2: "?A2 \<longrightarrow> ?S2"
  proof
    assume that: "?A2"
    show "?S2"
      unfolding next_one next_two
      by (simp only: attack_succeeds [OF that b(6)] finalDamage_attack simp_thms)
  qed
  have f2: "?B2 \<longrightarrow> ?F2"
  proof
    assume that: "?B2"
    show "?F2"
      unfolding next_one next_two
      by (simp only: attack_fails [OF that b(5,6)] no_damage [OF b(1)] simp_thms)
  qed
  from s1 f1 s2 f2 show ?thesis by (intro conjI)
qed

theorem C6_attack_witness:
  "reachable drainedGame \<and> energy (playerOne drainedGame) < 1 \<and>
   1 \<le> energy (playerTwo drainedGame) \<and> charged (playerTwo drainedGame) \<and>
   energy (playerOne (nextGame drainedGame attack attack)) = 0 \<and>
   hp (playerTwo (nextGame drainedGame attack attack)) = 55 \<and>
   statusChange (player1 (report drainedGame attack attack)) = Some ''Not enough energy!'' \<and>
   energy (playerTwo (nextGame drainedGame attack attack)) = 0 \<and>
   charged (playerTwo (nextGame drainedGame attack attack)) = False \<and>
   hp (playerOne (nextGame drainedGame attack attack)) = 75 \<and>
   statusChange (player2 (report drainedGame attack attack)) = Some ''Charged attack!''"
  using reachable_drainedGame
    C6_attack [OF reachable_drainedGame, where ?a1.0 = attack and ?a2.0 = attack]
  by (simp add: drainedGame_fields)

subsection \<open>Charging\<close>

text \<open>
  Claim C7. In every game the server can hold, for a player who chooses \<^verbatim>\<open>charge\<close>.
  With at least 2 energy before the round the player loses exactly 2 energy and the
  \<^verbatim>\<open>charged\<close> flag is \<open>True\<close> afterwards. With less than 2 energy both the energy and
  the flag are unchanged. The first two parts are for player 1, the last two for player 2.
\<close>

theorem C7_charge:
  assumes "reachable g"
  shows "(2 \<le> energy (playerOne g) \<longrightarrow>
            energy (playerOne (nextGame g charge a2)) = energy (playerOne g) - 2 \<and>
            energyChange (player1 (report g charge a2)) = - 2 \<and>
            charged (playerOne (nextGame g charge a2)) = True \<and>
            statusChange (player1 (report g charge a2)) = Some ''Charged up for next attack!'') \<and>
         (energy (playerOne g) < 2 \<longrightarrow>
            energy (playerOne (nextGame g charge a2)) = energy (playerOne g) \<and>
            energyChange (player1 (report g charge a2)) = 0 \<and>
            charged (playerOne (nextGame g charge a2)) = charged (playerOne g) \<and>
            statusChange (player1 (report g charge a2)) = Some ''Not enough energy to charge!'') \<and>
         (2 \<le> energy (playerTwo g) \<longrightarrow>
            energy (playerTwo (nextGame g a1 charge)) = energy (playerTwo g) - 2 \<and>
            energyChange (player2 (report g a1 charge)) = - 2 \<and>
            charged (playerTwo (nextGame g a1 charge)) = True \<and>
            statusChange (player2 (report g a1 charge)) = Some ''Charged up for next attack!'') \<and>
         (energy (playerTwo g) < 2 \<longrightarrow>
            energy (playerTwo (nextGame g a1 charge)) = energy (playerTwo g) \<and>
            energyChange (player2 (report g a1 charge)) = 0 \<and>
            charged (playerTwo (nextGame g a1 charge)) = charged (playerTwo g) \<and>
            statusChange (player2 (report g a1 charge)) = Some ''Not enough energy to charge!'')"
    (is "(?A1 \<longrightarrow> ?S1) \<and> (?B1 \<longrightarrow> ?F1) \<and> (?A2 \<longrightarrow> ?S2) \<and> (?B2 \<longrightarrow> ?F2)")
proof -
  note b = reachable_bounds [OF assms]
  have s1: "?A1 \<longrightarrow> ?S1"
  proof
    assume that: "?A1"
    show "?S1"
      unfolding next_one next_two
      by (simp only: charge_succeeds [OF that b(3)] simp_thms)
  qed
  have f1: "?B1 \<longrightarrow> ?F1"
  proof
    assume that: "?B1"
    show "?F1"
      unfolding next_one next_two
      by (simp only: charge_fails [OF that b(2,3)] simp_thms)
  qed
  have s2: "?A2 \<longrightarrow> ?S2"
  proof
    assume that: "?A2"
    show "?S2"
      unfolding next_one next_two
      by (simp only: charge_succeeds [OF that b(6)] simp_thms)
  qed
  have f2: "?B2 \<longrightarrow> ?F2"
  proof
    assume that: "?B2"
    show "?F2"
      unfolding next_one next_two
      by (simp only: charge_fails [OF that b(5,6)] simp_thms)
  qed
  from s1 f1 s2 f2 show ?thesis by (intro conjI)
qed

theorem C7_charge_witness:
  "reachable freshGame \<and> 2 \<le> energy (playerOne freshGame) \<and>
   energy (playerOne (nextGame freshGame charge attack)) = 1 \<and>
   charged (playerOne (nextGame freshGame charge attack)) \<and>
   reachable drainedGame \<and> energy (playerOne drainedGame) < 2 \<and>
   energy (playerOne (nextGame drainedGame charge attack)) = 0 \<and>
   \<not> charged (playerOne (nextGame drainedGame charge attack))"
  using reachable_freshGame reachable_drainedGame
    C7_charge [OF reachable_freshGame, where ?a1.0 = attack and ?a2.0 = attack]
    C7_charge [OF reachable_drainedGame, where ?a1.0 = attack and ?a2.0 = attack]
  by (simp add: freshGame_fields newPlayer_def drainedGame_fields)

subsection \<open>Simultaneous resolution\<close>

text \<open>
  Claim C8. Executing player 2's action before player 1's gives the same game and the same
  battle result as \<open>processActions\<close>, for every game and every pair of actions. Each
  player's flag, energy change, energy and status message after the round are the
  quantities computed from that player as found before the round and from that player's
  own action alone; the damage a player's action stages depends on that player and action
  alone, and the opponent's action enters the damage applied only through the halving for
  \<^verbatim>\<open>defend\<close>.
\<close>

theorem C8_simultaneous_resolution:
  "processActionsSwapped g a1 a2 = processActions g a1 a2 \<and>
   charged (playerOne (nextGame g a1 a2)) = chargedAfter (playerOne g) a1 \<and>
   charged (playerTwo (nextGame g a1 a2)) = chargedAfter (playerTwo g) a2 \<and>
   energyChange (player1 (report g a1 a2)) = energyDelta (playerOne g) a1 \<and>
   energyChange (player2 (report g a1 a2)) = energyDelta (playerTwo g) a2 \<and>
   energy (playerOne (nextGame g a1 a2)) =
     min (maxEnergy (playerOne g)) (max 0 (energy (playerOne g) + energyDelta (playerOne g) a1)) \<and>
   energy (playerTwo (nextGame g a1 a2)) =
     min (maxEnergy (playerTwo g)) (max 0 (energy (playerTwo g) + energyDelta (playerTwo g) a2)) \<and>
   statusChange (player1 (report g a1 a2)) = statusMessage (playerOne g) a1 \<and>
   statusChange (player2 (report g a1 a2)) = statusMessage (playerTwo g) a2 \<and>
   damage (player2 (report g a1 a2)) =
     (if a2 = defend then stagedDamage (playerOne g) a1 div 2 else stagedDamage (playerOne g) a1) \<and>
   damage (player1 (report g a1 a2)) =
     (if a1 = defend then stagedDamage (playerTwo g) a2 div 2 else stagedDamage (playerTwo g) a2)"
proof -
  have d: "finalDamage (isDefending p a) (stagedDamage q a') =
      (if a = defend then stagedDamage q a' div 2 else stagedDamage q a')" for p q a a'
    by (rule finalDamage_halved [OF stagedDamage_nonneg])
  have "processActionsSwapped g a1 a2 = processActions g a1 a2"
    by (simp only: processActionsSwapped_outcome processActions_outcome)
  then show ?thesis by (simp only: next_one next_two d simp_thms)
qed

theorem C8_simultaneous_resolution_witness:
  "processActionsSwapped freshGame attack charge = processActions freshGame attack charge \<and>
   charged (playerTwo (nextGame freshGame attack charge)) \<and>
   energy (playerTwo (nextGame freshGame attack charge)) = 1 \<and>
   energy (playerOne (nextGame freshGame attack charge)) = 2 \<and>
   damage (player2 (report freshGame attack charge)) = 15 \<and>
   damage (player2 (report freshGame attack defend)) = 7"
  using C8_simultaneous_resolution [of freshGame attack charge]
    C8_simultaneous_resolution [of freshGame attack defend]
  by (simp add: freshGame_fields newPlayer_def chargedAfter_eq energyDelta_eq stagedDamage_eq)

subsection \<open>Rejected submissions\<close>



subsection \<open>Hit points never increase\<close>

text \<open>
  Claim C10. In every game the server can hold and for every pair of actions, each player's
  hit points after the round are at most the hit points before it; the damage an action
  stages and the damage reported for each player are never negative.
\<close>

theorem C10_hp_never_increases:
  assumes "reachable g"
  shows "hp (playerOne (nextGame g a1 a2)) \<le> hp (playerOne g) \<and>
         hp (playerTwo (nextGame g a1 a2)) \<le> hp (playerTwo g) \<and>
         0 \<le> stagedDamage (playerOne g) a1 \<and> 0 \<le> stagedDamage (playerTwo g) a2 \<and>
         0 \<le> damage (player1 (report g a1 a2)) \<and> 0 \<le> damage (player2 (report g a1 a2))"
  using reachable_bounds [OF assms]
  by (simp add: next_fields hp_after_le damage_dealt_bounds stagedDamage_nonneg)

theorem C10_hp_never_increases_witness:
  "reachable lateGame \<and> hp (playerTwo lateGame) = 10 \<and>
   hp (playerTwo (nextGame lateGame attack charge)) = 0 \<and>
   hp (playerOne lateGame) = 100 \<and> hp (playerOne (nextGame lateGame attack charge)) = 100"
  using reachable_lateGame C10_hp_never_increases [OF reachable_lateGame, of attack charge]
  by (simp add: lateGame_fields next_fields finalDamage_eq stagedDamage_eq)

end
